theory Spec2Isabelle
  imports Complex_Main "HOL-Library.Sublist" "HOL-Library.Multiset"
begin

section \<open>Strings and the regular expressions of server.js\<close>

text \<open>
  Strings are ASCII character lists. The regular expressions of the source are all of three
  shapes: a literal pattern replaced globally, a name (or an alternation of names) between
  two word boundaries, and the numeric-literal pattern. Each shape is a left-to-right scan
  that, after a match, resumes behind the matched text, as a global JavaScript regular
  expression does. The scan carries a counter of characters still to be skipped because
  they belong to the match just found.
\<close>

definition upperChars :: string where
  "upperChars = ''ABCDEFGHIJKLMNOPQRSTUVWXYZ''"

definition lowerChars :: string where
  "lowerChars = ''abcdefghijklmnopqrstuvwxyz''"

definition digitChars :: string where
  "digitChars = ''0123456789''"

definition isWordChar :: "char \<Rightarrow> bool" where
  "isWordChar c = (c \<in> set (lowerChars @ upperChars @ digitChars @ ''_''))"

definition isDigit :: "char \<Rightarrow> bool" where
  "isDigit c = (c \<in> set digitChars)"

definition lowerChar :: "char \<Rightarrow> char" where
  "lowerChar c = (case map_of (zip upperChars lowerChars) c of Some d \<Rightarrow> d | None \<Rightarrow> c)"

definition toLowerCase :: "string \<Rightarrow> string" where
  "toLowerCase s = map lowerChar s"

text \<open>\<open>s.replace(/pat/g, rep)\<close> for a literal, non-empty pattern.\<close>

fun replaceLit :: "nat \<Rightarrow> string \<Rightarrow> string \<Rightarrow> string \<Rightarrow> string" where
  "replaceLit k pat rep [] = []"
| "replaceLit (Suc k) pat rep (c # cs) = replaceLit k pat rep cs"
| "replaceLit 0 pat rep (c # cs) =
     (if prefix pat (c # cs) then rep @ replaceLit (length pat - 1) pat rep cs
      else c # replaceLit 0 pat rep cs)"

definition replaceAll :: "string \<Rightarrow> string \<Rightarrow> string \<Rightarrow> string" where
  "replaceAll pat rep s = replaceLit 0 pat rep s"

text \<open>
  A word boundary lies between a word character and a non-word character or an end of the
  string. For a name made of word characters, \<open>\bname\b\<close> matches at a position when the
  character before it (if any) is not a word character, the name is a prefix of the rest,
  and the character behind the name (if any) is not a word character.
\<close>

definition boundaryBefore :: "char option \<Rightarrow> bool" where
  "boundaryBefore prev = (case prev of None \<Rightarrow> True | Some p \<Rightarrow> \<not> isWordChar p)"

definition boundaryAfter :: "string \<Rightarrow> bool" where
  "boundaryAfter rest = (case rest of [] \<Rightarrow> True | c # _ \<Rightarrow> \<not> isWordChar c)"

definition wordAt :: "char option \<Rightarrow> string \<Rightarrow> string \<Rightarrow> bool" where
  "wordAt prev name s =
     (name \<noteq> [] \<and> boundaryBefore prev \<and> prefix name s \<and> boundaryAfter (drop (length name) s))"

text \<open>\<open>s.replace(/\bname\b/g, rep)\<close>.\<close>

fun replaceWordFrom :: "nat \<Rightarrow> char option \<Rightarrow> string \<Rightarrow> string \<Rightarrow> string \<Rightarrow> string" where
  "replaceWordFrom k prev name rep [] = []"
| "replaceWordFrom (Suc k) prev name rep (c # cs) = replaceWordFrom k (Some c) name rep cs"
| "replaceWordFrom 0 prev name rep (c # cs) =
     (if wordAt prev name (c # cs)
      then rep @ replaceWordFrom (length name - 1) (Some c) name rep cs
      else c # replaceWordFrom 0 (Some c) name rep cs)"

definition replaceWord :: "string \<Rightarrow> string \<Rightarrow> string \<Rightarrow> string" where
  "replaceWord name rep s = replaceWordFrom 0 None name rep s"

text \<open>
  \<open>(s.match(/\b(n1|n2|...)\b/g) || []).length\<close>: at each position the alternatives are
  tried in the order written, and the first one that matches as a whole word is taken.
\<close>

definition firstWordAt :: "char option \<Rightarrow> string list \<Rightarrow> string \<Rightarrow> string option" where
  "firstWordAt prev names s = find (\<lambda>n. wordAt prev n s) names"

fun countWordsFrom :: "nat \<Rightarrow> char option \<Rightarrow> string list \<Rightarrow> string \<Rightarrow> nat" where
  "countWordsFrom k prev names [] = 0"
| "countWordsFrom (Suc k) prev names (c # cs) = countWordsFrom k (Some c) names cs"
| "countWordsFrom 0 prev names (c # cs) =
     (case firstWordAt prev names (c # cs) of
        Some n \<Rightarrow> Suc (countWordsFrom (length n - 1) (Some c) names cs)
      | None \<Rightarrow> countWordsFrom 0 (Some c) names cs)"

definition countWords :: "string list \<Rightarrow> string \<Rightarrow> nat" where
  "countWords names s = countWordsFrom 0 None names s"

text \<open>\<open>(s.match(/[+\-*/^()]/g) || []).length\<close>.\<close>

definition countOperators :: "string \<Rightarrow> nat" where
  "countOperators s = length (filter (\<lambda>c. c \<in> set ''+-*/^()'') s)"

text \<open>
  \<open>(s.match(/\d+\.?\d*/g) || []).length\<close>. Every part of the pattern behind \<open>\d+\<close> is
  optional and greedy, so a match never backtracks: it starts at a digit outside a match,
  runs through the digits, through one dot if it follows, and through the digits behind
  the dot. The scan remembers which of these parts it is in.
\<close>

datatype numState = Outside | IntPart | FracPart

fun countNumbersFrom :: "numState \<Rightarrow> string \<Rightarrow> nat" where
  "countNumbersFrom st [] = 0"
| "countNumbersFrom Outside (c # cs) =
     (if isDigit c then Suc (countNumbersFrom IntPart cs) else countNumbersFrom Outside cs)"
| "countNumbersFrom IntPart (c # cs) =
     (if isDigit c then countNumbersFrom IntPart cs
      else if c = CHR ''.'' then countNumbersFrom FracPart cs
      else countNumbersFrom Outside cs)"
| "countNumbersFrom FracPart (c # cs) =
     (if isDigit c then countNumbersFrom FracPart cs else countNumbersFrom Outside cs)"

definition countNumbers :: "string \<Rightarrow> nat" where
  "countNumbers s = countNumbersFrom Outside s"


section \<open>Decimal values and JavaScript numbers\<close>

text \<open>
  decimal.js and mathjs are third-party libraries. A \<open>Decimal\<close> is a finite number, one
  of the two infinities, or NaN. Finite arithmetic is modelled exactly on the reals: the
  rounding of each result to 60 significant digits is left out, and so is the sign of
  zero (every divisor in the source is an absolute value or a positive sum). A JavaScript
  number has the same four shapes and is modelled by the same type.
\<close>

datatype decimal = Fin real | PInf | NInf | NaN

type_synonym number = decimal

fun negated :: "decimal \<Rightarrow> decimal" where
  "negated (Fin x) = Fin (- x)"
| "negated PInf = NInf"
| "negated NInf = PInf"
| "negated NaN = NaN"

fun abs_dec :: "decimal \<Rightarrow> decimal" where
  "abs_dec (Fin x) = Fin \<bar>x\<bar>"
| "abs_dec PInf = PInf"
| "abs_dec NInf = PInf"
| "abs_dec NaN = NaN"

fun plus_dec :: "decimal \<Rightarrow> decimal \<Rightarrow> decimal" where
  "plus_dec NaN y = NaN"
| "plus_dec x NaN = NaN"
| "plus_dec (Fin x) (Fin y) = Fin (x + y)"
| "plus_dec PInf NInf = NaN"
| "plus_dec NInf PInf = NaN"
| "plus_dec PInf y = PInf"
| "plus_dec NInf y = NInf"
| "plus_dec (Fin x) y = y"

definition minus_dec :: "decimal \<Rightarrow> decimal \<Rightarrow> decimal" where
  "minus_dec x y = plus_dec x (negated y)"

text \<open>The sign of a value that is not NaN: \<open>-1\<close>, \<open>0\<close> or \<open>1\<close>.\<close>

fun dsgn :: "decimal \<Rightarrow> real" where
  "dsgn (Fin x) = sgn x"
| "dsgn PInf = 1"
| "dsgn NInf = - 1"
| "dsgn NaN = 0"

definition infinityOfSign :: "real \<Rightarrow> decimal" where
  "infinityOfSign s = (if s < 0 then NInf else PInf)"


fun times_dec :: "decimal \<Rightarrow> decimal \<Rightarrow> decimal" where
  "times_dec NaN y = NaN"
| "times_dec x NaN = NaN"
| "times_dec (Fin x) (Fin y) = Fin (x * y)"
| "times_dec x y = (if dsgn x = 0 \<or> dsgn y = 0 then NaN else infinityOfSign (dsgn x * dsgn y))"

text \<open>
  \<open>x.dividedBy(y)\<close> never throws: a non-zero value divided by zero is an infinity, zero
  divided by zero and infinity divided by infinity are NaN.
\<close>

fun dividedBy :: "decimal \<Rightarrow> decimal \<Rightarrow> decimal" where
  "dividedBy NaN y = NaN"
| "dividedBy x NaN = NaN"
| "dividedBy (Fin x) (Fin y) =
     (if y = 0 then (if x = 0 then NaN else infinityOfSign (sgn x)) else Fin (x / y))"
| "dividedBy (Fin x) y = Fin 0"
| "dividedBy x (Fin y) = infinityOfSign (dsgn x * (if y < 0 then - 1 else 1))"
| "dividedBy x y = NaN"

text \<open>\<open>x.log()\<close> is the logarithm to base 10, the default base of decimal.js.\<close>

fun log_dec :: "decimal \<Rightarrow> decimal" where
  "log_dec (Fin x) = (if x < 0 then NaN else if x = 0 then NInf else Fin (log 10 x))"
| "log_dec PInf = PInf"
| "log_dec NInf = NaN"
| "log_dec NaN = NaN"

fun floor_dec :: "decimal \<Rightarrow> decimal" where
  "floor_dec (Fin x) = Fin (of_int \<lfloor>x\<rfloor>)"
| "floor_dec d = d"

definition equals_dec :: "decimal \<Rightarrow> decimal \<Rightarrow> bool" where
  "equals_dec x y = (x \<noteq> NaN \<and> y \<noteq> NaN \<and> x = y)"

text \<open>
  \<open>x.toNumber()\<close> keeps the shape of the value (the rounding to a double is left out).
  \<open>a < b\<close> on numbers is false as soon as one side is NaN; \<open>Math.min\<close> and
  \<open>Math.max\<close> return NaN then.
\<close>

definition toNumber :: "decimal \<Rightarrow> number" where
  "toNumber d = d"

fun numLess :: "number \<Rightarrow> number \<Rightarrow> bool" where
  "numLess NaN y = False"
| "numLess x NaN = False"
| "numLess (Fin x) (Fin y) = (x < y)"
| "numLess NInf y = (y \<noteq> NInf)"
| "numLess x PInf = (x \<noteq> PInf)"
| "numLess x y = False"

definition mathMin :: "number \<Rightarrow> number \<Rightarrow> number" where
  "mathMin x y = (if x = NaN \<or> y = NaN then NaN else if numLess y x then y else x)"

definition mathMax :: "number \<Rightarrow> number \<Rightarrow> number" where
  "mathMax x y = (if x = NaN \<or> y = NaN then NaN else if numLess x y then y else x)"

section \<open>The evaluation engine (class MathEvaluator)\<close>

subsection \<open>Constants\<close>

text \<open>
  \<open>CONSTANTS.name.toString()\<close> prints the literal the constant was built from: the
  constructor keeps every digit, and a value of this size is printed in plain notation.
\<close>

definition pi_text :: string where
  "pi_text = ''3.1415926535897932384626433832795028841971693993751058209749445923078164062862089986280348253421170679''"

definition e_text :: string where
  "e_text = ''2.7182818284590452353602874713526624977572470936999595749669676277240766303535475945713821785251664274''"

definition phi_text :: string where
  "phi_text = ''1.6180339887498948482045868343656381177203091798057628621354486227052604628189024497072072041893911374''"

definition gamma_text :: string where
  "gamma_text = ''0.5772156649015328606065120900824024310421593359399235988057672348848677267776646709369470632917467495''"

definition sqrt2_text :: string where
  "sqrt2_text = ''1.4142135623730950488016887242096980785696718753769480731766797379907324784621070388503875343276415727''"

definition sqrt3_text :: string where
  "sqrt3_text = ''1.7320508075688772935274463415058723669428052538103806280558069794519330169088000370811461867572485757''"

definition ln2_text :: string where
  "ln2_text = ''0.6931471805599453094172321214581765680755001343602552541206800094933936219696947156058633269964186875''"

definition CONSTANTS :: "(string \<times> string) list" where
  "CONSTANTS =
     [(''pi'', pi_text), (''e'', e_text), (''phi'', phi_text), (''gamma'', gamma_text),
      (''sqrt2'', sqrt2_text), (''sqrt3'', sqrt3_text), (''ln2'', ln2_text)]"

subsection \<open>evaluateExpression\<close>

text \<open>The chain of literal replacements that cleans Python/mpmath syntax, in source order.\<close>

definition mpRewrites :: "(string \<times> string) list" where
  "mpRewrites =
     [(''mp.pi'', ''pi''), (''mp.e'', ''e''), (''mp.sqrt('', ''sqrt(''), (''mp.exp('', ''exp(''),
      (''mp.ln('', ''log(''), (''mp.log('', ''log(''), (''mp.sin('', ''sin(''),
      (''mp.cos('', ''cos(''), (''mp.tan('', ''tan(''), (''mp.sinh('', ''sinh(''),
      (''mp.cosh('', ''cosh(''), (''mp.tanh('', ''tanh(''), (''mp.'', [])]"

definition cleanSyntax :: "string \<Rightarrow> string" where
  "cleanSyntax expression =
     foldl (\<lambda>expr (pat, rep). replaceAll pat rep expr) (toLowerCase expression) mpRewrites"

text \<open>
  The built-in constants are replaced first, one \<open>replace\<close> after the other, then the
  caller's constants in the order of \<open>Object.keys\<close>. The caller's constants are an
  association list from names to the text of their values; a name is taken to be made of
  word characters, so that the regular expression built from it is the name itself, and
  a text to hold no dollar sign, so that it is inserted as it stands.
\<close>

definition replaceConstants :: "(string \<times> string) list \<Rightarrow> string \<Rightarrow> string" where
  "replaceConstants table expr = foldl (\<lambda>e (name, text). replaceWord name text e) expr table"

definition prepare :: "string \<Rightarrow> (string \<times> string) list \<Rightarrow> string" where
  "prepare expression constants =
     replaceConstants constants (replaceConstants CONSTANTS (cleanSyntax expression))"

text \<open>
  The two library calls of the engine are parameters: \<open>mathjs\<close> stands for
  \<open>evaluate(expr).toString()\<close> and \<open>newDecimal\<close> for \<open>new Decimal(text)\<close>; each
  is \<open>None\<close> where the library throws. \<open>numberToString\<close> prints a JSON number.
\<close>

record libs =
  mathjs :: "string \<Rightarrow> string option"
  newDecimal :: "string \<Rightarrow> decimal option"
  numberToString :: "real \<Rightarrow> string"

datatype failure =
    MissingExpression
  | MissingTarget
  | NotAnArray
  | EvaluationFailed
  | QualityFailed

definition evaluateExpression :: "libs \<Rightarrow> string \<Rightarrow> (string \<times> string) list \<Rightarrow> failure + decimal" where
  "evaluateExpression L expression constants =
     (case mathjs L (prepare expression constants) of
        None \<Rightarrow> Inl EvaluationFailed
      | Some result \<Rightarrow>
          (case newDecimal L result of
             None \<Rightarrow> Inl EvaluationFailed
           | Some d \<Rightarrow> Inr d))"

subsection \<open>Quality metrics\<close>

definition functionNames :: "string list" where
  "functionNames =
     [''sqrt'', ''log'', ''ln'', ''exp'', ''sin'', ''cos'', ''tan'', ''asin'', ''acos'', ''atan'']"

definition constantNames :: "string list" where
  "constantNames = [''pi'', ''e'', ''phi'', ''gamma'', ''sqrt2'', ''sqrt3'', ''ln2'']"

definition calculateComplexity :: "string \<Rightarrow> nat" where
  "calculateComplexity expression =
     (let operators = countOperators expression;
          functions = countWords functionNames expression;
          constants = countWords constantNames expression;
          numbers = countNumbers expression
      in length expression + operators * 2 + functions * 3 + constants + numbers)"

definition precision :: nat where
  "precision = 50"

definition calculateAccuracy :: "decimal \<Rightarrow> number" where
  "calculateAccuracy absoluteError =
     (if equals_dec absoluteError (Fin 0) then Fin (real precision)
      else
        let logError = log_dec absoluteError;
            accuracy = floor_dec (negated (dividedBy logError (log_dec (Fin 10))))
        in mathMax (Fin 0) (mathMin (Fin (real precision)) (toNumber accuracy)))"

definition calculateOverallScore :: "decimal \<Rightarrow> nat \<Rightarrow> number" where
  "calculateOverallScore absoluteError complexity =
     (let errorScore = dividedBy (Fin 1) (plus_dec absoluteError (Fin (1 / 10 ^ 50)));
          complexityPenalty = dividedBy (Fin 1) (plus_dec (Fin (real complexity)) (Fin 1))
      in toNumber (times_dec errorScore complexityPenalty))"

record quality =
  absoluteError :: decimal
  relativeError :: decimal
  complexity :: nat
  eleganceScore :: decimal
  accuracy :: number
  score :: number

text \<open>
  \<open>computed\<close> is a Decimal already; printing it and reading it back is the identity.
  The target is text, and \<open>new Decimal\<close> throws on text that is no number.
\<close>

definition calculateApproximationQuality :: "libs \<Rightarrow> decimal \<Rightarrow> string \<Rightarrow> string \<Rightarrow> failure + quality" where
  "calculateApproximationQuality L computed target expression =
     (case newDecimal L target of
        None \<Rightarrow> Inl QualityFailed
      | Some targetDecimal \<Rightarrow>
          let absErr = abs_dec (minus_dec computed targetDecimal);
              relErr = dividedBy absErr (abs_dec targetDecimal);
              cplx = calculateComplexity expression;
              elegance = times_dec absErr (plus_dec (Fin 1) (times_dec (Fin (1 / 100)) (Fin (real cplx))))
          in Inr \<lparr> absoluteError = absErr, relativeError = relErr, complexity = cplx,
                   eleganceScore = elegance, accuracy = calculateAccuracy absErr,
                   score = calculateOverallScore absErr cplx \<rparr>)"

section \<open>Request values and the parser (parser.js)\<close>

text \<open>
  A request body is a JSON value. Reading a property that is not there gives
  \<open>undefined\<close>, modelled by \<open>None\<close>. A parsed object holds each key once.
\<close>

datatype json =
    JNull
  | JBool bool
  | JNum real
  | JStr string
  | JArr "json list"
  | JObj "(string \<times> json) list"

datatype thrown = TypeError

fun truthy :: "json option \<Rightarrow> bool" where
  "truthy None = False"
| "truthy (Some JNull) = False"
| "truthy (Some (JBool b)) = b"
| "truthy (Some (JNum x)) = (x \<noteq> 0)"
| "truthy (Some (JStr s)) = (s \<noteq> [])"
| "truthy (Some (JArr xs)) = True"
| "truthy (Some (JObj kvs)) = True"

text \<open>\<open>a || b\<close>.\<close>

definition orElse :: "json option \<Rightarrow> json option \<Rightarrow> json option" where
  "orElse a b = (if truthy a then a else b)"

text \<open>
  \<open>approx.name\<close> for the field names of the parser, none of which is a property of a
  string, a number, a boolean or an array. Reading a property of \<open>null\<close> throws; the
  parser reaches \<open>Object.keys(approx)\<close> first, which throws on \<open>null\<close> as well.
\<close>

fun member :: "json \<Rightarrow> string \<Rightarrow> json option" where
  "member (JObj kvs) name = map_of kvs name"
| "member v name = None"

fun joinComma :: "string list \<Rightarrow> string" where
  "joinComma [] = []"
| "joinComma [s] = s"
| "joinComma (s # t # ts) = s @ '','' @ joinComma (t # ts)"

text \<open>
  \<open>v.toString()\<close> for a value that is neither \<open>null\<close> nor \<open>undefined\<close> (an
  object is taken to have no \<open>toString\<close> key of its own).
\<close>

fun jsToString :: "libs \<Rightarrow> json \<Rightarrow> string" where
  "jsToString L (JStr s) = s"
| "jsToString L (JNum x) = numberToString L x"
| "jsToString L (JBool b) = (if b then ''true'' else ''false'')"
| "jsToString L (JObj kvs) = ''[object Object]''"
| "jsToString L (JArr xs) = joinComma (map (\<lambda>x. if x = JNull then [] else jsToString L x) xs)"
| "jsToString L JNull = []"

fun isString :: "json option \<Rightarrow> bool" where
  "isString (Some (JStr s)) = True"
| "isString v = False"

record approximation =
  expression :: string
  targetValue :: string
  targetName :: string
  description :: string

datatype parseResult = ParseError failure | Parsed approximation

text \<open>
  The logging lines of \<open>parseApproximation\<close> are part of its behaviour where they can
  throw: \<open>Object.keys(approx)\<close> on \<open>null\<close>, and \<open>expression.substring\<close> on a truthy
  expression that is not a string.
\<close>

definition expressionField :: "json \<Rightarrow> json option" where
  "expressionField approx =
     orElse (orElse (member approx ''expression'') (member approx ''expr''))
       (member approx ''formula'')"

definition targetField :: "json \<Rightarrow> json option" where
  "targetField approx =
     orElse (orElse (orElse (member approx ''value'') (member approx ''target''))
       (member approx ''computed'')) (member approx ''result'')"

definition nameField :: "json \<Rightarrow> json option" where
  "nameField approx =
     orElse (orElse (orElse (member approx ''targetName'') (member approx ''target_name''))
       (member approx ''name'')) (Some (JStr ''unknown''))"

definition descriptionField :: "json \<Rightarrow> json option" where
  "descriptionField approx =
     orElse (orElse (member approx ''description'') (member approx ''desc'')) (Some (JStr []))"

definition parseApproximation :: "libs \<Rightarrow> json \<Rightarrow> nat \<Rightarrow> thrown + parseResult" where
  "parseApproximation L approx index =
     (if approx = JNull then Inl TypeError
      else
        let expr = expressionField approx;
            target = targetField approx;
            name = nameField approx;
            descr = descriptionField approx
        in if truthy expr \<and> \<not> isString expr then Inl TypeError
           else if \<not> truthy expr then Inr (ParseError MissingExpression)
           else if \<not> truthy target then Inr (ParseError MissingTarget)
           else Inr (Parsed \<lparr> expression = jsToString L (the expr),
                               targetValue = jsToString L (the target),
                               targetName = jsToString L (the name),
                               description = jsToString L (the descr) \<rparr>))"

record parsedItem =
  index :: nat
  item :: approximation

record errorEntry =
  errorIndex :: int
  errorExpression :: "json option"
  error :: failure

text \<open>
  \<open>approximations.forEach((approx, index) => ...)\<close>: the items in order, each with its
  position. An exception thrown for one item leaves \<open>forEach\<close> and \<open>parseBatch\<close>.
\<close>

fun parseItems :: "libs \<Rightarrow> nat \<Rightarrow> json list \<Rightarrow> thrown + (parsedItem list \<times> errorEntry list)" where
  "parseItems L i [] = Inr ([], [])"
| "parseItems L i (approx # rest) =
     (case parseApproximation L approx i of
        Inl t \<Rightarrow> Inl t
      | Inr result \<Rightarrow>
          (case parseItems L (Suc i) rest of
             Inl t \<Rightarrow> Inl t
           | Inr (parsed, errors) \<Rightarrow>
               (case result of
                  ParseError f \<Rightarrow>
                    Inr (parsed,
                         \<lparr> errorIndex = int i,
                           errorExpression = orElse (member approx ''expression'') (Some (JStr ''missing'')),
                           error = f \<rparr> # errors)
                | Parsed a \<Rightarrow> Inr (\<lparr> index = i, item = a \<rparr> # parsed, errors))))"

fun isArray :: "json \<Rightarrow> bool" where
  "isArray (JArr xs) = True"
| "isArray v = False"

fun parseBatch :: "libs \<Rightarrow> json \<Rightarrow> thrown + (parsedItem list \<times> errorEntry list)" where
  "parseBatch L (JArr approximations) = parseItems L 0 approximations"
| "parseBatch L v = Inr ([], [\<lparr> errorIndex = - 1, errorExpression = None, error = NotAnArray \<rparr>])"

section \<open>The request handlers (server.js)\<close>

record resultItem =
  resultIndex :: nat
  resultExpression :: string
  target :: string
  resultTargetName :: string
  resultDescription :: string
  computed :: decimal
  quality :: quality

text \<open>The body of the \<open>try\<close> block run for each parsed item.\<close>

definition evaluateItem :: "libs \<Rightarrow> parsedItem \<Rightarrow> failure + resultItem" where
  "evaluateItem L p =
     (case evaluateExpression L (expression (item p)) [] of
        Inl f \<Rightarrow> Inl f
      | Inr c \<Rightarrow>
          (case calculateApproximationQuality L c (targetValue (item p)) (expression (item p)) of
             Inl f \<Rightarrow> Inl f
           | Inr q \<Rightarrow>
               Inr \<lparr> resultIndex = index p, resultExpression = expression (item p),
                     target = targetValue (item p), resultTargetName = targetName (item p),
                     resultDescription = description (item p), computed = c, quality = q \<rparr>))"

text \<open>
  \<open>parsed.forEach\<close>: a result is pushed for an item that evaluates, an error entry for
  one that throws; the \<open>catch\<close> is inside the loop body.
\<close>

fun evaluateItems :: "libs \<Rightarrow> parsedItem list \<Rightarrow> resultItem list \<times> errorEntry list" where
  "evaluateItems L [] = ([], [])"
| "evaluateItems L (p # rest) =
     (let (results, errors) = evaluateItems L rest
      in case evaluateItem L p of
           Inr r \<Rightarrow> (r # results, errors)
         | Inl f \<Rightarrow>
             (results,
              \<lparr> errorIndex = int (index p),
                errorExpression = orElse (Some (JStr (expression (item p)))) (Some (JStr ''unknown'')),
                error = f \<rparr> # errors))"

text \<open>
  \<open>results.sort((a, b) => b.quality.score - a.quality.score)\<close>. The sort of the
  language is stable, and a comparator result that is NaN counts as zero. For a
  comparator that orders the items consistently the result is the one stable ordering,
  which inserting each item in front of the sorted rest computes; with NaN among the
  scores the comparator is not consistent and the language leaves the order open.
\<close>

definition sortsAfter :: "resultItem \<Rightarrow> resultItem \<Rightarrow> bool" where
  "sortsAfter a b = numLess (Fin 0) (minus_dec (score (quality b)) (score (quality a)))"

fun insertRanked :: "resultItem \<Rightarrow> resultItem list \<Rightarrow> resultItem list" where
  "insertRanked a [] = [a]"
| "insertRanked a (b # bs) = (if sortsAfter a b then b # insertRanked a bs else a # b # bs)"

fun sortByScore :: "resultItem list \<Rightarrow> resultItem list" where
  "sortByScore [] = []"
| "sortByScore (a # as) = insertRanked a (sortByScore as)"

record batchResult =
  results :: "resultItem list"
  errors :: "errorEntry list"
  total :: nat
  successful :: nat
  failed :: nat
  bestScore :: number

datatype 'a response = BadRequest string | ServerError | Success 'a

text \<open>
  \<open>POST /api/evaluate-batch\<close>; the argument is \<open>req.body\<close>, an object or an
  array (the JSON body parser accepts nothing else).
\<close>

definition evaluateBatch :: "libs \<Rightarrow> json \<Rightarrow> batchResult response" where
  "evaluateBatch L body =
     (let approximations = member body ''approximations''
      in if \<not> truthy approximations then BadRequest ''Invalid request: approximations array required''
         else if \<not> isArray (the approximations) then BadRequest ''approximations must be an array''
         else
           case parseBatch L (the approximations) of
             Inl t \<Rightarrow> ServerError
           | Inr (parsed, parseErrors) \<Rightarrow>
               let (rs, es) = evaluateItems L parsed;
                   ranked = sortByScore rs;
                   allErrors = parseErrors @ es
               in Success \<lparr> results = ranked, errors = allErrors,
                            total = (case the approximations of JArr xs \<Rightarrow> length xs | _ \<Rightarrow> 0),
                            successful = length ranked, failed = length allErrors,
                            bestScore = (case ranked of [] \<Rightarrow> Fin 0 | r # _ \<Rightarrow> score (quality r)) \<rparr>)"



subsection \<open>Sample library behaviour\<close>

text \<open>
  For evaluating the handlers on concrete requests: the answers of the two libraries on
  the handful of texts the examples use, and no answer on any other text. mathjs
  evaluates a one-digit literal to that number and knows the cube root \<open>cbrt\<close>;
  \<open>new Decimal\<close> reads a one-digit literal as its value.
\<close>

definition sampleTexts :: "(string \<times> real) list" where
  "sampleTexts = [(''0'', 0), (''1'', 1), (''2'', 2), (''3'', 3), (''5'', 5), (''7'', 7)]"

definition sampleLibs :: libs where
  "sampleLibs =
     \<lparr> mathjs = (\<lambda>expr. if expr = ''cbrt(8)'' then Some ''2''
                         else if expr \<in> set (map fst sampleTexts) then Some expr else None),
       newDecimal = (\<lambda>text. map_option Fin (map_of sampleTexts text)),
       numberToString = (\<lambda>x. case find (\<lambda>(t, v). v = x) sampleTexts of
                                 Some (t, v) \<Rightarrow> t | None \<Rightarrow> ''NaN'') \<rparr>"

section \<open>Definitions used in the statements\<close>


text \<open>
  The complexity as the specification words it: the function count is taken over the
  whole supported function set, the three hyperbolic functions included.
\<close>

definition hyperbolicNames :: "string list" where
  "hyperbolicNames = [''sinh'', ''cosh'', ''tanh'']"

definition supportedFunctions :: "string list" where
  "supportedFunctions = functionNames @ hyperbolicNames"

definition specComplexity :: "string \<Rightarrow> nat" where
  "specComplexity expressionText =
     length expressionText + 2 * countOperators expressionText
     + 3 * countWords supportedFunctions expressionText
     + countWords constantNames expressionText + countNumbers expressionText"

definition wordy :: "string list \<Rightarrow> bool" where
  "wordy names = (\<forall>n\<in>set names. n \<noteq> [] \<and> (\<forall>c\<in>set n. isWordChar c))"

text \<open>Whether some name of the list matches as a whole word at the head of the text.\<close>

definition hit :: "char option \<Rightarrow> string list \<Rightarrow> string \<Rightarrow> nat" where
  "hit prev names s = (if \<exists>n\<in>set names. wordAt prev n s then 1 else 0)"

text \<open>Requests and items used as examples.\<close>

definition oneOverZero :: json where
  "oneOverZero = JObj [(''expression'', JStr ''1''), (''target'', JStr ''0'')]"

definition oneOverZeroParsed :: parsedItem where
  "oneOverZeroParsed =
     \<lparr> index = 0,
       item = \<lparr> expression = ''1'', targetValue = ''0'', targetName = ''unknown'', description = [] \<rparr> \<rparr>"

definition batchBody :: "json list \<Rightarrow> json" where
  "batchBody approximations = JObj [(''approximations'', JArr approximations)]"



definition validItem :: json where
  "validItem = JObj [(''expression'', JStr ''1''), (''target'', JStr ''1'')]"

definition numericExpressionItem :: json where
  "numericExpressionItem = JObj [(''expression'', JNum 7), (''target'', JStr ''1'')]"




text \<open>An item the parser can take apart without throwing.\<close>

definition wellFormed :: "json \<Rightarrow> bool" where
  "wellFormed a = (a \<noteq> JNull \<and> (isString (expressionField a) \<or> \<not> truthy (expressionField a)))"

section \<open>Properties of the string scans\<close>

lemmas chars = upperChars_def lowerChars_def digitChars_def

lemmas wordScan = replaceWord_def wordAt_def boundaryBefore_def boundaryAfter_def isWordChar_def chars




















section \<open>Syntax cleaning and constant substitution\<close>





section \<open>Counting whole words\<close>

lemma countWordsFrom_skip:
  "isWordChar p \<Longrightarrow> \<forall>c\<in>set (take k s). isWordChar c
   \<Longrightarrow> countWordsFrom k (Some p) names s = countWordsFrom 0 (Some p) names s"
proof (induction s arbitrary: k p)
  case Nil
  show ?case by simp
next
  case (Cons a s)
  show ?case
  proof (cases k)
    case 0
    then show ?thesis by simp
  next
    case (Suc j)
    have none: "firstWordAt (Some p) names (a # s) = None"
      using Cons.prems(1) by (simp add: firstWordAt_def find_None_iff wordAt_def boundaryBefore_def)
    have "isWordChar a" "\<forall>c\<in>set (take j s). isWordChar c"
      using Cons.prems(2) Suc by simp_all
    then have "countWordsFrom j (Some a) names s = countWordsFrom 0 (Some a) names s"
      by (rule Cons.IH)
    with none Suc show ?thesis by simp
  qed
qed

lemma firstWordAt_Some:
  "firstWordAt prev names s = Some n \<Longrightarrow> n \<in> set names \<and> wordAt prev n s"
  by (auto simp: firstWordAt_def find_Some_iff)

lemma firstWordAt_None:
  "firstWordAt prev names s = None \<longleftrightarrow> (\<forall>n\<in>set names. \<not> wordAt prev n s)"
  by (auto simp: firstWordAt_def find_None_iff)

lemma countWordsFrom_step:
  assumes "wordy names"
  shows "countWordsFrom 0 prev names (c # cs) =
         hit prev names (c # cs) + countWordsFrom 0 (Some c) names cs"
proof (cases "firstWordAt prev names (c # cs)")
  case None
  moreover from None have "\<forall>n\<in>set names. \<not> wordAt prev n (c # cs)"
    by (simp only: firstWordAt_None)
  ultimately show ?thesis by (simp add: hit_def)
next
  case (Some n)
  then have n: "n \<in> set names" "wordAt prev n (c # cs)" by (auto dest: firstWordAt_Some)
  with assms have wn: "n \<noteq> []" "\<forall>x\<in>set n. isWordChar x" by (auto simp: wordy_def)
  from n(2) obtain r where r: "c # cs = n @ r" by (auto simp: wordAt_def prefix_def)
  with wn obtain m where m: "n = c # m" "cs = m @ r" by (cases n) auto
  have "countWordsFrom (length n - 1) (Some c) names cs = countWordsFrom 0 (Some c) names cs"
    using wn m by (intro countWordsFrom_skip) auto
  moreover have "hit prev names (c # cs) = 1" using n by (auto simp: hit_def)
  ultimately show ?thesis using Some by simp
qed

lemma wordAt_unique:
  assumes "wordAt prev n s" "wordAt prev m s"
    and "\<forall>c\<in>set n. isWordChar c" "\<forall>c\<in>set m. isWordChar c"
  shows "n = m"
proof -
  have aux: "a = b" if a: "prefix a s" "boundaryAfter (drop (length a) s)"
    and b: "prefix b s" "\<forall>c\<in>set b. isWordChar c" and le: "length a \<le> length b" for a b
  proof -
    from a(1) b(1) le have ab: "prefix a b" by (metis prefix_length_prefix)
    then obtain r where r: "b = a @ r" by (auto simp: prefix_def)
    from b(1) r obtain t where "s = a @ r @ t" by (auto simp: prefix_def)
    with a(2) have "boundaryAfter (r @ t)" by simp
    with b(2) r have "r = []" by (cases r) (auto simp: boundaryAfter_def)
    with r show ?thesis by simp
  qed
  show ?thesis
  proof (cases "length n \<le> length m")
    case True
    with assms show ?thesis by (intro aux) (auto simp: wordAt_def)
  next
    case False
    then have "length m \<le> length n" by simp
    with assms have "m = n" by (intro aux) (auto simp: wordAt_def)
    then show ?thesis by simp
  qed
qed

lemma hit_append:
  assumes "wordy A" "wordy B" "set A \<inter> set B = {}"
  shows "hit prev (A @ B) s = hit prev A s + hit prev B s"
proof -
  have "\<not> ((\<exists>n\<in>set A. wordAt prev n s) \<and> (\<exists>m\<in>set B. wordAt prev m s))"
  proof
    assume "(\<exists>n\<in>set A. wordAt prev n s) \<and> (\<exists>m\<in>set B. wordAt prev m s)"
    then obtain n m where nm: "n \<in> set A" "wordAt prev n s" "m \<in> set B" "wordAt prev m s" by blast
    with assms(1,2) have "n = m" by (intro wordAt_unique [of prev n s m]) (auto simp: wordy_def)
    with nm assms(3) show False by blast
  qed
  then show ?thesis by (auto simp: hit_def)
qed

lemma wordy_append: "wordy (A @ B) = (wordy A \<and> wordy B)"
  by (auto simp: wordy_def)

lemma countWordsFrom_append:
  assumes "wordy A" "wordy B" "set A \<inter> set B = {}"
  shows "countWordsFrom 0 prev (A @ B) s = countWordsFrom 0 prev A s + countWordsFrom 0 prev B s"
proof (induction s arbitrary: prev)
  case Nil
  show ?case by simp
next
  case (Cons c cs)
  have "wordy (A @ B)" using assms by (simp add: wordy_append)
  then show ?case
    using assms Cons.IH [of "Some c"]
    by (simp only: countWordsFrom_step hit_append)
qed

lemma wordy_functions:
  "wordy functionNames" "wordy hyperbolicNames" "set functionNames \<inter> set hyperbolicNames = {}"
  by (simp_all add: wordy_def functionNames_def hyperbolicNames_def isWordChar_def chars)

lemmas countScan = countOperators_def countWords_def countNumbers_def firstWordAt_def
  functionNames_def constantNames_def hyperbolicNames_def isDigit_def wordScan

section \<open>Complexity\<close>

text \<open>
  Claim C4, as the code has it. The complexity is the length of the expression plus twice
  the operator count, three times the function count, the constant count and the
  numeric-literal count, where the function count is taken over \<open>sqrt\<close>, \<open>log\<close>,
  \<open>ln\<close>, \<open>exp\<close>, \<open>sin\<close>, \<open>cos\<close>, \<open>tan\<close>, \<open>asin\<close>, \<open>acos\<close>
  and \<open>atan\<close> only. It falls short of the specified value by three for every whole-word
  \<open>sinh\<close>, \<open>cosh\<close> or \<open>tanh\<close>.
\<close>

theorem complexity_counts_ten_functions:
  "calculateComplexity e =
     length e + 2 * countOperators e + 3 * countWords functionNames e
     + countWords constantNames e + countNumbers e
   \<and> specComplexity e = calculateComplexity e + 3 * countWords hyperbolicNames e"
  by (simp add: specComplexity_def calculateComplexity_def supportedFunctions_def countWords_def
      countWordsFrom_append wordy_functions)

text \<open>
  The claim as written fails on \<open>sinh(1)\<close>: seven characters, two operators and one
  numeric literal give 12, and the function \<open>sinh\<close> adds nothing.
\<close>

theorem complexity_hyperbolic_counterexample:
  "calculateComplexity ''sinh(1)'' = 12 \<and> specComplexity ''sinh(1)'' = 15"
  by (simp add: calculateComplexity_def specComplexity_def supportedFunctions_def countScan)

section \<open>Evaluation and scoring\<close>





lemmas sample = sampleLibs_def sampleTexts_def

lemma prepare_one: "prepare ''1'' [] = ''1''"
  by (simp add: prepare_def cleanSyntax_def mpRewrites_def toLowerCase_def lowerChar_def
      replaceAll_def replaceConstants_def CONSTANTS_def wordScan)

lemma eval_one: "evaluateExpression sampleLibs ''1'' [] = Inr (Fin 1)"
  by (simp add: evaluateExpression_def prepare_one) (simp add: sample)

lemma relerr:
  "dividedBy (abs_dec (minus_dec c (Fin 0))) (abs_dec (Fin 0)) = (if c = NaN \<or> c = Fin 0 then NaN else PInf)"
  by (cases c) (auto simp: minus_dec_def infinityOfSign_def)

lemma zero_target_item:
  assumes "evaluateExpression L (expression (item p)) [] = Inr c"
    and "newDecimal L (targetValue (item p)) = Some (Fin 0)"
  shows "\<exists>r. evaluateItem L p = Inr r \<and> evaluateItems L [p] = ([r], [])
           \<and> relativeError (quality r) = (if c = NaN \<or> c = Fin 0 then NaN else PInf)"
  using assms relerr [of c]
  by (simp add: evaluateItem_def calculateApproximationQuality_def Let_def)

lemma parse_oneOverZero: "parseItems L 0 [oneOverZero] = Inr ([oneOverZeroParsed], [])"
  by (simp add: oneOverZero_def oneOverZeroParsed_def parseApproximation_def expressionField_def
      targetField_def nameField_def descriptionField_def orElse_def)

lemma evaluateBatch_parsed:
  assumes "parseItems L 0 xs = Inr (parsed, perrs)" and "evaluateItems L parsed = (rs, es)"
  shows "evaluateBatch L (batchBody xs) =
         Success \<lparr> results = sortByScore rs, errors = perrs @ es, total = length xs,
                   successful = length (sortByScore rs), failed = length (perrs @ es),
                   bestScore = (case sortByScore rs of [] \<Rightarrow> Fin 0 | r # _ \<Rightarrow> score (quality r)) \<rparr>"
  using assms by (simp add: evaluateBatch_def batchBody_def Let_def)

lemma evaluateBatch_thrown:
  assumes "parseItems L 0 xs = Inl t"
  shows "evaluateBatch L (batchBody xs) = ServerError"
  using assms by (simp add: evaluateBatch_def batchBody_def)








text \<open>
  Claim C1, as the code has it. An item whose expression evaluates and whose target is
  zero is not a failure: the division of the relative error does not throw, the item
  is scored and pushed to the results, and its relative error is infinite (NaN when the
  computed value is zero or NaN as well). No error entry is recorded for it.
\<close>

theorem zero_target_is_scored:
  assumes "evaluateExpression L (expression (item p)) [] = Inr c"
    and "newDecimal L (targetValue (item p)) = Some (Fin 0)"
  shows "\<exists>r. evaluateItem L p = Inr r \<and> evaluateItems L [p] = ([r], [])
           \<and> relativeError (quality r) = (if c = NaN \<or> c = Fin 0 then NaN else PInf)"
  using assms by (rule zero_target_item)

theorem zero_target_is_scored_witness:
  "evaluateExpression sampleLibs (expression (item oneOverZeroParsed)) [] = Inr (Fin 1)
   \<and> newDecimal sampleLibs (targetValue (item oneOverZeroParsed)) = Some (Fin 0)
   \<and> (\<exists>r. evaluateItem sampleLibs oneOverZeroParsed = Inr r
          \<and> evaluateItems sampleLibs [oneOverZeroParsed] = ([r], [])
          \<and> relativeError (quality r) = PInf)"
proof -
  have e: "evaluateExpression sampleLibs (expression (item oneOverZeroParsed)) [] = Inr (Fin 1)"
    by (simp add: oneOverZeroParsed_def eval_one)
  have t: "newDecimal sampleLibs (targetValue (item oneOverZeroParsed)) = Some (Fin 0)"
    by (simp add: oneOverZeroParsed_def sample)
  from zero_target_is_scored [OF e t] e t show ?thesis by simp
qed

text \<open>
  The claim as written fails on the batch with the one item \<open>expression "1"\<close>,
  \<open>target "0"\<close>: the item is ranked with an infinite relative error and the error list
  is empty.
\<close>

theorem zero_target_counterexample:
  "case evaluateBatch sampleLibs (batchBody [oneOverZero]) of
     Success b \<Rightarrow> map (\<lambda>r. relativeError (quality r)) (results b) = [PInf] \<and> errors b = []
   | _ \<Rightarrow> False"
proof -
  have e: "evaluateExpression sampleLibs (expression (item oneOverZeroParsed)) [] = Inr (Fin 1)"
    by (simp add: oneOverZeroParsed_def eval_one)
  have t: "newDecimal sampleLibs (targetValue (item oneOverZeroParsed)) = Some (Fin 0)"
    by (simp add: oneOverZeroParsed_def sample)
  from zero_target_item [OF e t] obtain r where
    r: "evaluateItems sampleLibs [oneOverZeroParsed] = ([r], [])" "relativeError (quality r) = PInf"
    by auto
  show ?thesis
    using r(2) by (simp add: evaluateBatch_parsed [OF parse_oneOverZero r(1)])
qed




section \<open>Ranking\<close>



lemma mset_insertRanked: "mset (insertRanked a bs) = add_mset a (mset bs)"
  by (induction bs) auto


lemma mset_sortByScore: "mset (sortByScore rs) = mset rs"
  by (induction rs) (auto simp: mset_insertRanked)










section \<open>The batch handler and the parser\<close>

lemmas fields = expressionField_def targetField_def nameField_def descriptionField_def orElse_def

lemma parse_null: "parseItems L i (JNull # rest) = Inl TypeError"
  by (simp add: parseApproximation_def)

lemma parse_numeric_expression: "parseItems L i (numericExpressionItem # rest) = Inl TypeError"
  by (simp add: parseApproximation_def numericExpressionItem_def fields)

lemma parseApproximation_wellFormed:
  "wellFormed a \<Longrightarrow> \<exists>r. parseApproximation L a i = Inr r"
  by (auto simp: wellFormed_def parseApproximation_def Let_def)

lemma parseItems_wellFormed:
  "list_all wellFormed xs \<Longrightarrow>
   \<exists>ps es. parseItems L i xs = Inr (ps, es) \<and> length ps + length es = length xs"
proof (induction xs arbitrary: i)
  case Nil
  show ?case by simp
next
  case (Cons a xs)
  then obtain r where r: "parseApproximation L a i = Inr r"
    using parseApproximation_wellFormed [of a L i] by auto
  from Cons.prems have "list_all wellFormed xs" by simp
  from Cons.IH [OF this, of "Suc i"] obtain ps es where
    "parseItems L (Suc i) xs = Inr (ps, es)" "length ps + length es = length xs"
    by blast
  with r show ?case by (cases r) auto
qed

lemma evaluateItems_count:
  "evaluateItems L ps = (rs, es) \<Longrightarrow> length rs + length es = length ps"
  by (induction ps arbitrary: rs es) (auto split: prod.splits sum.splits)

lemma length_sortByScore: "length (sortByScore rs) = length rs"
  using mset_sortByScore [of rs] by (metis size_mset)

text \<open>A batch of well-formed items is answered, and every item is a result or an error.\<close>

lemma wellFormed_batch_is_answered:
  assumes "list_all wellFormed xs"
  shows "\<exists>b. evaluateBatch L (batchBody xs) = Success b \<and> successful b + failed b = total b"
proof -
  from parseItems_wellFormed [OF assms] obtain ps pes where
    p: "parseItems L 0 xs = Inr (ps, pes)" "length ps + length pes = length xs" by blast
  obtain rs es where e: "evaluateItems L ps = (rs, es)" by (cases "evaluateItems L ps")
  from evaluateItems_count [OF e] p(2) have "length rs + (length pes + length es) = length xs"
    by simp
  then show ?thesis
    by (simp add: evaluateBatch_parsed [OF p(1) e] length_sortByScore)
qed

text \<open>
  Claim C7 (a failing item is recorded with its index and the other items are still
  processed) does not hold for every item. An item that is \<open>null\<close>, or whose
  expression is a number, makes the logging lines of the parser throw outside every
  per-item \<open>try\<close>, and the whole batch is answered with a server error, the valid
  item next to it included.
\<close>

theorem bad_item_aborts_batch:
  "evaluateBatch L (batchBody [JNull, validItem]) = ServerError
   \<and> evaluateBatch L (batchBody [numericExpressionItem, validItem]) = ServerError"
  by (simp add: evaluateBatch_thrown [OF parse_null] evaluateBatch_thrown [OF parse_numeric_expression])

text \<open>
  Claim C8. A payload that is no array makes \<open>parseBatch\<close> return no parsed item and
  the single error entry with index \<open>-1\<close>; the request handler answers such a payload
  with a bad-request error before any item is looked at.
\<close>

theorem non_array_payload_short_circuits:
  assumes "\<not> isArray payload"
  shows "parseBatch L payload =
           Inr ([], [\<lparr> errorIndex = - 1, errorExpression = None, error = NotAnArray \<rparr>])
         \<and> evaluateBatch L (JObj [(''approximations'', payload)]) =
             BadRequest (if truthy (Some payload) then ''approximations must be an array''
                         else ''Invalid request: approximations array required'')"
  using assms by (cases payload) (simp_all add: evaluateBatch_def Let_def)

theorem non_array_payload_short_circuits_witness:
  "parseBatch sampleLibs (JStr ''abc'') =
     Inr ([], [\<lparr> errorIndex = - 1, errorExpression = None, error = NotAnArray \<rparr>])
   \<and> evaluateBatch sampleLibs (JObj [(''approximations'', JStr ''abc'')]) =
       BadRequest ''approximations must be an array''"
  using non_array_payload_short_circuits [of "JStr ''abc''" sampleLibs] by simp










end
